theory Spec2Isabelle
  imports Complex_Main "HOL-Library.AList"
begin

section \<open>Values shared by the engine and the scripts\<close>

text \<open>
  A point is the Python tuple \<^verbatim>\<open>(lat, lon)\<close>. Python and numpy compute on IEEE doubles;
  the coordinates are modelled as real numbers, so the statements below are about the
  formulas of the source, not about rounding.
\<close>

type_synonym point = "real \<times> real"

text \<open>
  Outcomes. \<open>ValueError\<close>, \<open>ZeroDivisionError\<close>, \<open>KeyError\<close>, \<open>IndexError\<close> and
  \<open>QhullError\<close> are the Python exceptions that the modelled lines can raise. \<open>InvalidArgument\<close> and
  \<open>EmptyReferenceSet\<close> are the two failure names of the specification's taxonomy; no
  line of the source raises them, and they are constructors here only so that this can
  be stated. An operation yields \<open>Inl e\<close> when the exception \<open>e\<close> leaves it uncaught
  and \<open>Inr v\<close> when it returns \<open>v\<close>.
\<close>

datatype failure =
  ValueError | ZeroDivisionError | KeyError | IndexError | QhullError
  | InvalidArgument | EmptyReferenceSet

text \<open>A distance reported by the tree: a number, or numpy's \<^verbatim>\<open>inf\<close> for a missing neighbour.\<close>

datatype npdist = Finite real | Infinite

definition euclid :: "point \<Rightarrow> point \<Rightarrow> real" where
  "euclid a b = sqrt ((fst a - fst b)\<^sup>2 + (snd a - snd b)\<^sup>2)"

section \<open>The library tree (\<^verbatim>\<open>scipy.spatial.cKDTree\<close>)\<close>

text \<open>
  The tree is scipy's, not the repository's. It is modelled by what its documentation
  fixes. What the documentation leaves open is the order in which equidistant points
  are reported; that order is the parameter \<open>trav\<close> of the nearest-neighbour query:
  \<open>trav pts x\<close> lists the stored identities in the order in which the search for \<open>x\<close>
  meets them, and of two points at the same distance the one met first is reported
  first.
\<close>

datatype ckdtree = CKDTree (tree_data: "point list")

type_synonym traversal = "point list \<Rightarrow> point \<Rightarrow> nat list"

definition index_order :: traversal where
  "index_order pts x = [0..<length pts]"

definition reverse_order :: traversal where
  "reverse_order pts x = rev [0..<length pts]"

definition wf_trav :: "traversal \<Rightarrow> point list \<Rightarrow> point \<Rightarrow> bool" where
  "wf_trav trav pts x \<longleftrightarrow> distinct (trav pts x) \<and> set (trav pts x) = {0..<length pts}"

text \<open>
  \<^verbatim>\<open>cKDTree(np.array(points))\<close>: an empty Python list becomes an array of shape \<open>(0,)\<close>,
  which the constructor refuses with \<open>ValueError\<close> (the data must be two-dimensional).
\<close>

definition cKDTree :: "point list \<Rightarrow> failure + ckdtree" where
  "cKDTree pts = (if pts = [] then Inl ValueError else Inr (CKDTree pts))"

text \<open>
  \<^verbatim>\<open>tree.query_ball_point(x, r)\<close> with the default Euclidean norm: the identities of the
  stored points at distance at most \<open>r\<close>. scipy compares squared distances with the
  squared radius, and so does the model; for \<open>r \<ge> 0\<close> this is \<open>euclid p x \<le> r\<close>
  (lemma \<open>in_ball_iff_euclid\<close>). Only the set of the result is fixed by the library.
\<close>

definition in_ball :: "point \<Rightarrow> point \<Rightarrow> real \<Rightarrow> bool" where
  "in_ball p x r \<longleftrightarrow> (fst p - fst x)\<^sup>2 + (snd p - snd x)\<^sup>2 \<le> r\<^sup>2"

definition query_ball_point :: "ckdtree \<Rightarrow> point \<Rightarrow> real \<Rightarrow> nat list" where
  "query_ball_point t x r = [i \<leftarrow> [0..<length (tree_data t)]. in_ball (tree_data t ! i) x r]"

text \<open>
  \<^verbatim>\<open>tree.query(xs, k=k)\<close>. One row per query point: the \<open>k\<close> nearest stored points in
  order of distance, and when the tree holds fewer than \<open>k\<close> points the row is filled
  up with the distance \<^verbatim>\<open>inf\<close> and the identity \<open>n\<close>, the number of stored points.
  An empty list of query points (an array of shape \<open>(0,)\<close>) and \<open>k < 1\<close> raise
  \<open>ValueError\<close>. For \<open>k = 1\<close> numpy drops the last axis; \<open>squeeze\<close> does that.
\<close>

definition knn_row :: "traversal \<Rightarrow> ckdtree \<Rightarrow> point \<Rightarrow> nat \<Rightarrow> (npdist \<times> nat) list" where
  "knn_row trav t x k =
     (let pts = tree_data t;
          hits = take k (sort_key (\<lambda>i. euclid (pts ! i) x) (trav pts x))
      in map (\<lambda>i. (Finite (euclid (pts ! i) x), i)) hits
         @ replicate (k - length hits) (Infinite, length pts))"

definition query ::
  "traversal \<Rightarrow> ckdtree \<Rightarrow> point list \<Rightarrow> int \<Rightarrow> failure + (npdist list list \<times> nat list list)" where
  "query trav t xs k =
     (if xs = [] then Inl ValueError
      else if k < 1 then Inl ValueError
      else Inr (map (\<lambda>x. map fst (knn_row trav t x (nat k))) xs,
                map (\<lambda>x. map snd (knn_row trav t x (nat k))) xs))"

definition squeeze :: "'a list list \<Rightarrow> 'a list" where
  "squeeze rows = map hd rows"

section \<open>\<^verbatim>\<open>FastPostGISLike\<close> (src/geometry/fast_postgis_like.py)\<close>

text \<open>
  The fields of the object that the modelled methods read or write. The geometry
  analyzer, the result cache and the road graph are not touched by them.
\<close>

record FastPostGISLike =
  points :: "point list"
  points_array :: "point list option"
  kdtree :: "ckdtree option"

definition init :: FastPostGISLike where
  "init = \<lparr>points = [], points_array = None, kdtree = None\<rparr>"

subsection \<open>\<^verbatim>\<open>bulk_insert_points\<close>\<close>

text \<open>
  A cell of the data frame, by what pandas does with it in lines 59 to 67: \<open>NA\<close> is a
  missing value (dropped by \<^verbatim>\<open>dropna\<close>), \<open>Num v\<close> a text that \<^verbatim>\<open>astype(float)\<close> reads as
  the number \<open>v\<close> (after the decimal comma is replaced), \<open>PosInf\<close> and \<open>NegInf\<close> texts
  read as the two infinities, \<open>Unparsable\<close> a text on which \<^verbatim>\<open>astype(float)\<close> raises
  \<open>ValueError\<close>. A row is the pair of its \<^verbatim>\<open>LATITUDE\<close> and \<^verbatim>\<open>LONGITUDE\<close> cells.
\<close>

datatype cell = NA | Num real | PosInf | NegInf | Unparsable

type_synonym row = "cell \<times> cell"

text \<open>
  The file: \<^verbatim>\<open>load_csv\<close> fails (\<open>Unreadable\<close>), or the frame lacks one of the two columns
  (\<open>NoCoordinateColumns\<close>, a \<open>KeyError\<close> in line 59), or it is a table of rows.
\<close>

datatype csv_file = Unreadable | NoCoordinateColumns | Table "row list"

definition dropna :: "row list \<Rightarrow> row list" where
  "dropna df = [r \<leftarrow> df. fst r \<noteq> NA \<and> snd r \<noteq> NA]"

definition astype_float :: "row list \<Rightarrow> failure + row list" where
  "astype_float df =
     (if (\<exists>r \<in> set df. fst r = Unparsable \<or> snd r = Unparsable) then Inl ValueError
      else Inr df)"

fun cell_ge :: "cell \<Rightarrow> real \<Rightarrow> bool" where
  "cell_ge (Num v) c = (v \<ge> c)"
| "cell_ge PosInf c = True"
| "cell_ge _ c = False"

fun cell_le :: "cell \<Rightarrow> real \<Rightarrow> bool" where
  "cell_le (Num v) c = (v \<le> c)"
| "cell_le NegInf c = True"
| "cell_le _ c = False"

definition sao_paulo :: "row \<Rightarrow> bool" where
  "sao_paulo r \<longleftrightarrow>
     cell_ge (fst r) (-24.0) \<and> cell_le (fst r) (-23.0) \<and>
     cell_ge (snd r) (-47.0) \<and> cell_le (snd r) (-46.0)"

text \<open>
  \<^verbatim>\<open>list(zip(valid_data['LATITUDE'], valid_data['LONGITUDE']))\<close> after the mask of lines
  64 to 67, which leaves only rows of two numbers; the last equation is never used on
  such rows.
\<close>

fun zip_columns :: "row list \<Rightarrow> point list" where
  "zip_columns [] = []"
| "zip_columns ((Num a, Num b) # rs) = (a, b) # zip_columns rs"
| "zip_columns (_ # rs) = zip_columns rs"

text \<open>
  The method returns its flag and leaves the object changed; the model returns both.
  Every exception inside the \<^verbatim>\<open>try\<close> is caught and turned into \<open>False\<close>, but the
  assignments made before it stay: when the tree cannot be built (no row is left),
  \<open>points\<close> and \<open>points_array\<close> are already the new, empty ones and \<open>kdtree\<close> is the old
  one. The unused parameter \<^verbatim>\<open>batch_size\<close>, the timing and the printing are left out.
\<close>

definition bulk_insert_points :: "FastPostGISLike \<Rightarrow> csv_file \<Rightarrow> bool \<times> FastPostGISLike" where
  "bulk_insert_points self csv =
     (case csv of
        Unreadable \<Rightarrow> (False, self)
      | NoCoordinateColumns \<Rightarrow> (False, self)
      | Table df \<Rightarrow>
          (case astype_float (dropna df) of
             Inl e \<Rightarrow> (False, self)
           | Inr valid_data \<Rightarrow>
               (let valid_data = filter sao_paulo valid_data;
                    self = self\<lparr>points := zip_columns valid_data\<rparr>;
                    self = self\<lparr>points_array := Some (points self)\<rparr>
                in case cKDTree (points self) of
                     Inl e \<Rightarrow> (False, self)
                   | Inr t \<Rightarrow> (True, self\<lparr>kdtree := Some t\<rparr>))))"

subsection \<open>\<^verbatim>\<open>fast_spatial_query\<close>\<close>

text \<open>
  Lines 105 to 107. Dividing a Python float by \<open>0.0\<close> raises \<open>ZeroDivisionError\<close>; the
  divisor of line 107 is zero exactly when the latitude of the centre is.
\<close>

definition lat_radius :: "real \<Rightarrow> real" where
  "lat_radius radius_km = radius_km / 111.32"

definition lon_radius :: "real \<Rightarrow> real \<Rightarrow> failure + real" where
  "lon_radius radius_km lat_center =
     (if 111.32 * \<bar>lat_center\<bar> * pi / 180 = 0 then Inl ZeroDivisionError
      else Inr (radius_km / (111.32 * \<bar>lat_center\<bar> * pi / 180)))"

definition fast_spatial_query :: "FastPostGISLike \<Rightarrow> point \<Rightarrow> real \<Rightarrow> failure + nat list" where
  "fast_spatial_query self center radius_km =
     (case kdtree self of
        None \<Rightarrow> Inr []
      | Some t \<Rightarrow>
          (case lon_radius radius_km (fst center) of
             Inl e \<Rightarrow> Inr []
           | Inr lon_r \<Rightarrow> Inr (query_ball_point t center (max (lat_radius radius_km) lon_r))))"

subsection \<open>\<^verbatim>\<open>fast_nearest_points\<close>\<close>

definition fast_nearest_points ::
  "traversal \<Rightarrow> FastPostGISLike \<Rightarrow> point list \<Rightarrow> int \<Rightarrow> failure + nat list list" where
  "fast_nearest_points trav self query_points k =
     (case kdtree self of
        None \<Rightarrow> Inr []
      | Some t \<Rightarrow>
          (case query trav t query_points k of
             Inl e \<Rightarrow> Inr []
           | Inr (distances, indices) \<Rightarrow>
               (if k = 1 then Inr [[idx]. idx \<leftarrow> squeeze indices]
                else Inr [idx_list. idx_list \<leftarrow> indices])))"

section \<open>\<^verbatim>\<open>create_optimized_voronoi_assignment\<close> (voronoi_optimized.py)\<close>

text \<open>
  A node of the road graph as the loop of lines 56 to 60 sees it: its identifier and the
  values of the keys \<^verbatim>\<open>'y'\<close> (latitude) and \<^verbatim>\<open>'x'\<close> (longitude) of its data, \<open>None\<close> when
  the key is absent. The loop keeps the nodes that have both, and fills the two lists
  \<^verbatim>\<open>node_coords\<close> and \<^verbatim>\<open>node_ids\<close> side by side.
\<close>

type_synonym node = "int \<times> real option \<times> real option"

fun graph_node_coords :: "node list \<Rightarrow> point list" where
  "graph_node_coords [] = []"
| "graph_node_coords ((node_id, Some lat, Some lon) # G) = (lat, lon) # graph_node_coords G"
| "graph_node_coords (_ # G) = graph_node_coords G"

fun graph_node_ids :: "node list \<Rightarrow> int list" where
  "graph_node_ids [] = []"
| "graph_node_ids ((node_id, Some lat, Some lon) # G) = node_id # graph_node_ids G"
| "graph_node_ids (_ # G) = graph_node_ids G"

text \<open>
  A value of the dictionary \<^verbatim>\<open>assignments\<close>. The dictionary itself is an association
  list: Python keeps the keys in the order of their first insertion, and
  \<open>AList.update\<close> does the same (a new key goes to the end, a known key keeps its
  place).
\<close>

record assignment =
  crime_point :: point
  nearest_node_id :: int
  distance :: npdist

type_synonym assignments = "(nat \<times> assignment) list"

text \<open>
  The inner loop of lines 92 to 98 over \<^verbatim>\<open>enumerate(zip(batch_crime, nearest_indices,
  distances))\<close>: the entry for the \<open>j\<close>-th point of the batch that starts at \<open>i\<close> is stored
  under the key \<open>i + j\<close>. \<^verbatim>\<open>node_ids[nearest_idx]\<close> raises \<open>IndexError\<close> out of range.
\<close>

fun store_batch ::
  "int list \<Rightarrow> nat \<Rightarrow> assignments \<Rightarrow> (nat \<times> point \<times> nat \<times> npdist) list \<Rightarrow> failure + assignments" where
  "store_batch node_ids i assignments [] = Inr assignments"
| "store_batch node_ids i assignments ((j, crime_pt, nearest_idx, d) # rest) =
     (if nearest_idx < length node_ids
      then store_batch node_ids i
             (AList.update (i + j)
                \<lparr>crime_point = crime_pt, nearest_node_id = node_ids ! nearest_idx,
                 distance = d\<rparr> assignments) rest
      else Inl IndexError)"

text \<open>
  The outer loop of lines 84 to 98, \<^verbatim>\<open>for i in range(0, len(crime_points), batch_size)\<close>,
  for a positive step; \<open>i\<close> is the start of the next batch. The source fixes
  \<^verbatim>\<open>batch_size = 10000\<close> in line 81; the step is a parameter here, and
  \<open>assign_in_batches\<close> adds what \<^verbatim>\<open>range\<close> does with the other steps: zero raises
  \<open>ValueError\<close>, and a negative step gives the empty range.
\<close>

function assign_batches ::
  "traversal \<Rightarrow> ckdtree \<Rightarrow> int list \<Rightarrow> point list \<Rightarrow> nat \<Rightarrow> nat \<Rightarrow> assignments
   \<Rightarrow> failure + assignments" where
  "assign_batches trav node_kdtree node_ids crime_points batch_size i assignments =
     (if 0 < batch_size \<and> i < length crime_points then
        (let batch_end = min (i + batch_size) (length crime_points);
             batch_crime = take (batch_end - i) (drop i crime_points)
         in case query trav node_kdtree batch_crime 1 of
              Inl e \<Rightarrow> Inl e
            | Inr (distances, nearest_indices) \<Rightarrow>
                (case store_batch node_ids i assignments
                        (enumerate 0 (zip batch_crime
                           (zip (squeeze nearest_indices) (squeeze distances)))) of
                   Inl e \<Rightarrow> Inl e
                 | Inr assignments \<Rightarrow>
                     assign_batches trav node_kdtree node_ids crime_points batch_size
                       (i + batch_size) assignments))
      else Inr assignments)"
  by pat_completeness auto
termination
  by (relation "measure (\<lambda>(trav, t, ids, cps, b, i, a). length cps - i)") auto

definition assign_in_batches ::
  "traversal \<Rightarrow> ckdtree \<Rightarrow> int list \<Rightarrow> point list \<Rightarrow> int \<Rightarrow> failure + assignments" where
  "assign_in_batches trav node_kdtree node_ids crime_points batch_size =
     (if batch_size = 0 then Inl ValueError
      else if batch_size < 0 then Inr []
      else assign_batches trav node_kdtree node_ids crime_points (nat batch_size) 0 [])"

text \<open>
  The function up to the dictionary it builds (the statistics and the plots that follow
  read it and do not change it). \<open>csv\<close> is the crime file, \<open>G\<close> the road graph, \<open>None\<close>
  when \<^verbatim>\<open>graph_from_place\<close> raises. A failed load and a failed download print a
  message and return \<open>None\<close>; the tree of line 69 is built outside any \<^verbatim>\<open>try\<close>.
\<close>

definition optimized_assignment ::
  "traversal \<Rightarrow> int \<Rightarrow> csv_file \<Rightarrow> node list option \<Rightarrow> failure + assignments option" where
  "optimized_assignment trav batch_size csv G =
     (case bulk_insert_points init csv of
        (False, analyzer) \<Rightarrow> Inr None
      | (True, analyzer) \<Rightarrow>
          (case G of
             None \<Rightarrow> Inr None
           | Some nodes \<Rightarrow>
               (case cKDTree (graph_node_coords nodes) of
                  Inl e \<Rightarrow> Inl e
                | Inr node_kdtree \<Rightarrow>
                    (case assign_in_batches trav node_kdtree (graph_node_ids nodes)
                            (points analyzer) batch_size of
                       Inl e \<Rightarrow> Inl e
                     | Inr assignments \<Rightarrow> Inr (Some assignments)))))"

definition create_optimized_voronoi_assignment ::
  "traversal \<Rightarrow> csv_file \<Rightarrow> node list option \<Rightarrow> failure + assignments option" where
  "create_optimized_voronoi_assignment trav csv G = optimized_assignment trav 10000 csv G"

section \<open>\<^verbatim>\<open>create_voronoi_assignment\<close> (voronoi_assignment.py)\<close>

text \<open>
  \<^verbatim>\<open>cdist\<close> refuses an array that is not two-dimensional, which is what an empty list
  becomes. \<^verbatim>\<open>np.argmin\<close> returns the first position of the least entry; the rows it
  sees here are never empty. \<^verbatim>\<open>node_ids\<close> is as long as a row of the matrix, so
  \<^verbatim>\<open>node_ids[i]\<close> is in range. \<open>full_matrix_assignment\<close> is lines 85 to 105.
\<close>

definition cdist :: "point list \<Rightarrow> point list \<Rightarrow> failure + real list list" where
  "cdist XA XB =
     (if XA = [] \<or> XB = [] then Inl ValueError
      else Inr (map (\<lambda>a. map (\<lambda>b. euclid a b) XB) XA))"

fun argmin_from :: "real \<Rightarrow> nat \<Rightarrow> nat \<Rightarrow> real list \<Rightarrow> nat" where
  "argmin_from best bi i [] = bi"
| "argmin_from best bi i (v # vs) =
     (if v < best then argmin_from v i (Suc i) vs else argmin_from best bi (Suc i) vs)"

definition argmin :: "real list \<Rightarrow> nat" where
  "argmin row = (case row of [] \<Rightarrow> 0 | v # vs \<Rightarrow> argmin_from v 0 1 vs)"

definition full_matrix_assignment :: "node list \<Rightarrow> point list \<Rightarrow> failure + assignments" where
  "full_matrix_assignment nodes crime_points =
     (case cdist crime_points (graph_node_coords nodes) of
        Inl e \<Rightarrow> Inl e
      | Inr distances \<Rightarrow>
          (let nearest_node_indices = map argmin distances;
               nearest_node_ids = map (\<lambda>i. graph_node_ids nodes ! i) nearest_node_indices
           in Inr (fold (\<lambda>(i, crime_pt, nearest_id).
                           AList.update i
                             \<lparr>crime_point = crime_pt, nearest_node_id = nearest_id,
                              distance = Finite (distances ! i ! (nearest_node_indices ! i))\<rparr>)
                     (enumerate 0 (zip crime_points nearest_node_ids)) [])))"



section \<open>The specification's notions\<close>

text \<open>
  The longitude radius of the specification: the radius in kilometres times
  \<open>1 / (111.32 * cos \<phi>)\<close>, \<open>\<phi>\<close> the latitude of the centre in radians.
\<close>

definition spec_lon_degree_radius :: "real \<Rightarrow> real \<Rightarrow> real" where
  "spec_lon_degree_radius radius_km lat_center =
     radius_km * (1 / (111.32 * cos (lat_center * pi / 180)))"

text \<open>
  A point is inside the circle of the linearized metric when its offsets, scaled by the
  two degree radii, lie in the unit disc.
\<close>

definition in_linearized_circle :: "real \<Rightarrow> real \<Rightarrow> point \<Rightarrow> point \<Rightarrow> bool" where
  "in_linearized_circle lat_r lon_r c p \<longleftrightarrow>
     0 < lat_r \<and> 0 < lon_r \<and> ((fst p - fst c) / lat_r)\<^sup>2 + ((snd p - snd c) / lon_r)\<^sup>2 \<le> 1"

text \<open>The bounding box, and the rows of a table that lie in it, in the order of the table.\<close>

definition in_box :: "point \<Rightarrow> bool" where
  "in_box p \<longleftrightarrow> -24.0 \<le> fst p \<and> fst p \<le> -23.0 \<and> -47.0 \<le> snd p \<and> snd p \<le> -46.0"

definition accepted :: "row list \<Rightarrow> point list" where
  "accepted df = concat (map (\<lambda>r. case r of (Num a, Num b) \<Rightarrow> (if in_box (a, b) then [(a, b)] else []) | _ \<Rightarrow> []) df)"


section \<open>Closed forms used in the proofs\<close>

text \<open>
  \<open>ranked\<close> is the order in which the tree reports the stored points for a query point.
  \<open>nearest_entry\<close> is the dictionary value that the batched loop stores for a subject
  point, \<open>matrix_entry\<close> the one that the full matrix stores.
\<close>

definition ranked :: "traversal \<Rightarrow> point list \<Rightarrow> point \<Rightarrow> nat list" where
  "ranked trav pts x = sort_key (\<lambda>i. euclid (pts ! i) x) (trav pts x)"

definition nearest_entry :: "traversal \<Rightarrow> ckdtree \<Rightarrow> int list \<Rightarrow> point \<Rightarrow> assignment" where
  "nearest_entry trav t ids x =
     \<lparr>crime_point = x, nearest_node_id = ids ! snd (hd (knn_row trav t x 1)),
      distance = fst (hd (knn_row trav t x 1))\<rparr>"


section \<open>Example inputs\<close>

text \<open>
  Crime files with one and with two rows inside the box; a table with one row inside
  the box, one outside and one with an infinite latitude; a table from which nothing is
  kept; two road nodes at the same distance from the point \<open>(-23.5, -46.5)\<close>; three
  road nodes in a triangle, the first of them the nearest to both points of
  \<open>two_points\<close>; a road node without a latitude.
\<close>

definition one_point :: csv_file where
  "one_point = Table [(Num (-23.5), Num (-46.5))]"

definition two_points :: csv_file where
  "two_points = Table [(Num (-23.5), Num (-46.5)), (Num (-23.6), Num (-46.5))]"

definition one_accepted_two_rejected :: "row list" where
  "one_accepted_two_rejected = [(Num (-23.5), Num (-46.5)), (Num 0, Num 0), (PosInf, Num (-46.5))]"


definition tie_nodes :: "node list" where
  "tie_nodes = [(10, Some (-23.5), Some (-46.25)), (20, Some (-23.5), Some (-46.75))]"


definition no_coordinates :: "node list" where
  "no_coordinates = [(7, None, Some (-46.5))]"

section \<open>Facts about the library model\<close>

lemma in_ball_iff_euclid: "0 \<le> r \<Longrightarrow> in_ball p x r \<longleftrightarrow> euclid p x \<le> r"
  unfolding in_ball_def euclid_def
  using real_le_lsqrt [of r] sqrt_le_D [of _ r] by blast

lemma set_query_ball_point:
  "set (query_ball_point t x r) = {i. i < length (tree_data t) \<and> in_ball (tree_data t ! i) x r}"
  by (auto simp: query_ball_point_def)


lemma wf_index_order: "wf_trav index_order pts x"
  by (simp add: wf_trav_def index_order_def)

lemma wf_reverse_order: "wf_trav reverse_order pts x"
  by (simp add: wf_trav_def reverse_order_def)

lemma length_knn_row: "length (knn_row trav t x k) = k"
  by (simp add: knn_row_def Let_def)

lemma knn_row_indices:
  "map snd (knn_row trav t x k) =
     take k (ranked trav (tree_data t) x)
     @ replicate (k - length (take k (ranked trav (tree_data t) x))) (length (tree_data t))"
  by (simp add: knn_row_def ranked_def Let_def comp_def)

lemma ranked_wf:
  assumes "wf_trav trav pts x"
  shows "length (ranked trav pts x) = length pts"
    and "distinct (ranked trav pts x)"
    and "set (ranked trav pts x) = {0..<length pts}"
    and "sorted (map (\<lambda>i. euclid (pts ! i) x) (ranked trav pts x))"
proof -
  from assms have d: "distinct (trav pts x)" and s: "set (trav pts x) = {0..<length pts}"
    by (simp_all add: wf_trav_def)
  have "length (trav pts x) = card (set (trav pts x))"
    using d by (simp add: distinct_card)
  then show "length (ranked trav pts x) = length pts"
    by (simp add: ranked_def s)
  show "distinct (ranked trav pts x)" using d by (simp add: ranked_def)
  show "set (ranked trav pts x) = {0..<length pts}" using s by (simp add: ranked_def)
  show "sorted (map (\<lambda>i. euclid (pts ! i) x) (ranked trav pts x))"
    by (simp add: ranked_def)
qed

lemma sorted_take_le_rest:
  assumes "sorted (map f S)" "h \<in> set (take m S)" "i \<in> set S" "i \<notin> set (take m S)"
  shows "f h \<le> (f i :: real)"
proof -
  have "S = take m S @ drop m S" by simp
  then have "set S = set (take m S) \<union> set (drop m S)"
    by (metis set_append)
  with assms(3,4) have i: "i \<in> set (drop m S)" by blast
  have "sorted (map f (take m S) @ map f (drop m S))"
    using assms(1) by (simp flip: map_append)
  then have "\<forall>a \<in> set (map f (take m S)). \<forall>b \<in> set (map f (drop m S)). a \<le> b"
    by (simp add: sorted_append)
  with assms(2) i show ?thesis by auto
qed

lemma knn_row_split:
  assumes "wf_trav trav (tree_data t) x"
  shows "take (min k (length (tree_data t))) (map snd (knn_row trav t x k))
           = take k (ranked trav (tree_data t) x)"
    and "drop (min k (length (tree_data t))) (map snd (knn_row trav t x k))
           = replicate (k - length (tree_data t)) (length (tree_data t))"
proof -
  let ?R = "ranked trav (tree_data t) x"
  let ?n = "length (tree_data t)"
  have len: "length (take k ?R) = min k ?n"
    using ranked_wf(1) [OF assms(1)] by (simp add: min.commute)
  have row: "map snd (knn_row trav t x k) = take k ?R @ replicate (k - min k ?n) ?n"
    using len by (simp add: knn_row_indices)
  have "take k ?R = take (length (take k ?R)) (take k ?R @ Y)
        \<and> Y = drop (length (take k ?R)) (take k ?R @ Y)" for Y :: "nat list"
    by (rule append_eq_conv_conj [THEN iffD1, OF refl])
  then have both: "take k ?R = take (min k ?n) (take k ?R @ Y)
        \<and> Y = drop (min k ?n) (take k ?R @ Y)" for Y :: "nat list"
    by (simp only: len)
  show "take (min k ?n) (map snd (knn_row trav t x k)) = take k ?R"
    unfolding row using both by metis
  have "k - min k ?n = k - ?n" by simp
  then show "drop (min k ?n) (map snd (knn_row trav t x k)) = replicate (k - ?n) ?n"
    unfolding row using both by metis
qed

lemma knn_row_identities:
  assumes "wf_trav trav (tree_data t) x" "i \<in> set (map snd (knn_row trav t x k))"
  shows "i \<le> length (tree_data t)"
proof -
  let ?R = "ranked trav (tree_data t) x"
  from assms(2) have "i \<in> set (take k ?R) \<or> i = length (tree_data t)"
    by (auto simp: knn_row_indices)
  moreover have "set (take k ?R) \<subseteq> {0..<length (tree_data t)}"
    using ranked_wf(3) [OF assms(1)] set_take_subset [of k ?R] by simp
  ultimately show ?thesis by auto
qed

lemma hd_knn_row:
  assumes "0 < k"
  shows "hd (map snd (knn_row trav t x k)) = snd (hd (knn_row trav t x k))"
    and "hd (map fst (knn_row trav t x k)) = fst (hd (knn_row trav t x k))"
proof -
  have "knn_row trav t x k \<noteq> []"
    using length_knn_row [of trav t x k] assms by auto
  then show "hd (map snd (knn_row trav t x k)) = snd (hd (knn_row trav t x k))"
    and "hd (map fst (knn_row trav t x k)) = fst (hd (knn_row trav t x k))"
    by (simp_all add: hd_map)
qed

lemma query_one:
  "xs \<noteq> [] \<Longrightarrow> query trav t xs 1 =
     Inr (map (\<lambda>x. map fst (knn_row trav t x 1)) xs, map (\<lambda>x. map snd (knn_row trav t x 1)) xs)"
  by (simp add: query_def)

lemma nearest_hit:
  assumes "wf_trav trav pts x" "pts \<noteq> []"
  obtains i0 where "hd (knn_row trav (CKDTree pts) x 1) = (Finite (euclid (pts ! i0) x), i0)"
    and "i0 < length pts" and "\<forall>j < length pts. euclid (pts ! i0) x \<le> euclid (pts ! j) x"
proof -
  let ?R = "ranked trav pts x"
  let ?f = "\<lambda>i. euclid (pts ! i) x"
  note w = ranked_wf [OF assms(1)]
  from w(1) assms(2) have ne: "?R \<noteq> []" by auto
  then obtain i0 rest where R: "?R = i0 # rest" by (cases ?R) auto
  have "i0 \<in> set ?R" by (simp add: R)
  then have lt: "i0 < length pts" using w(3) by simp
  have "\<forall>j \<in> set ?R. ?f i0 \<le> ?f j"
    using w(4) by (auto simp: R)
  then have mn: "\<forall>j < length pts. ?f i0 \<le> ?f j"
    using w(3) by simp
  have "hd (knn_row trav (CKDTree pts) x 1) = (Finite (?f i0), i0)"
    using R by (simp add: knn_row_def Let_def ranked_def)
  with lt mn that show thesis by blast
qed

lemma nearest_idx_in_range:
  assumes "wf_trav trav pts x" "pts \<noteq> []"
  shows "snd (hd (knn_row trav (CKDTree pts) x 1)) < length pts"
  using nearest_hit [OF assms] by (metis snd_conv)

section \<open>Facts about the bulk load\<close>

lemma zip_columns_accepted: "zip_columns (filter sao_paulo (dropna df)) = accepted df"
proof (induction df)
  case Nil
  show ?case by (simp add: dropna_def accepted_def)
next
  case (Cons r df)
  obtain a b where r: "r = (a, b)" by (cases r)
  show ?case using Cons
    by (cases a; cases b) (simp_all add: r dropna_def accepted_def sao_paulo_def in_box_def)
qed

lemma set_accepted: "set (accepted df) = {(a, b). (Num a, Num b) \<in> set df \<and> in_box (a, b)}"
proof (induction df)
  case Nil
  show ?case by (simp add: accepted_def)
next
  case (Cons r df)
  obtain a b where r: "r = (a, b)" by (cases r)
  have "accepted (r # df) = (case r of (Num a, Num b) \<Rightarrow> (if in_box (a, b) then [(a, b)] else []) | _ \<Rightarrow> []) @ accepted df"
    by (simp add: accepted_def)
  then show ?case using Cons
    by (cases a; cases b) (auto simp: r)
qed

lemma bulk_insert_points_Table:
  "bulk_insert_points self (Table df) =
     (if (\<exists>r \<in> set (dropna df). fst r = Unparsable \<or> snd r = Unparsable) then (False, self)
      else if accepted df = [] then (False, self\<lparr>points := [], points_array := Some []\<rparr>)
      else (True, self\<lparr>points := accepted df, points_array := Some (accepted df),
                       kdtree := Some (CKDTree (accepted df))\<rparr>))"
  by (simp add: bulk_insert_points_def astype_float_def cKDTree_def zip_columns_accepted Let_def)

lemma bulk_insert_points_True:
  assumes "bulk_insert_points self csv = (True, self')"
  obtains df where "csv = Table df" "accepted df \<noteq> []" "points self' = accepted df"
    "kdtree self' = Some (CKDTree (accepted df))" "points_array self' = Some (accepted df)"
proof (cases csv)
  case Unreadable
  with assms show ?thesis by (simp add: bulk_insert_points_def)
next
  case NoCoordinateColumns
  with assms show ?thesis by (simp add: bulk_insert_points_def)
next
  case (Table df)
  with assms that [of df] show ?thesis
    by (auto simp: bulk_insert_points_Table split: if_splits)
qed


lemma loaded_one:
  "bulk_insert_points init one_point =
     (True, \<lparr>points = [(-23.5, -46.5)], points_array = Some [(-23.5, -46.5)],
             kdtree = Some (CKDTree [(-23.5, -46.5)])\<rparr>)"
  by (simp add: one_point_def bulk_insert_points_def astype_float_def dropna_def sao_paulo_def
      cKDTree_def init_def)

lemma loaded_two:
  "bulk_insert_points init two_points =
     (True, \<lparr>points = [(-23.5, -46.5), (-23.6, -46.5)],
             points_array = Some [(-23.5, -46.5), (-23.6, -46.5)],
             kdtree = Some (CKDTree [(-23.5, -46.5), (-23.6, -46.5)])\<rparr>)"
  by (simp add: two_points_def bulk_insert_points_def astype_float_def dropna_def sao_paulo_def
      cKDTree_def init_def)

lemma loaded_example:
  "bulk_insert_points init (Table one_accepted_two_rejected) =
     (True, \<lparr>points = [(-23.5, -46.5)], points_array = Some [(-23.5, -46.5)],
             kdtree = Some (CKDTree [(-23.5, -46.5)])\<rparr>)"
  by (simp add: one_accepted_two_rejected_def bulk_insert_points_def astype_float_def dropna_def
      sao_paulo_def cKDTree_def init_def)



lemma accepted_example: "accepted one_accepted_two_rejected = [(-23.5, -46.5)]"
  by (simp add: accepted_def one_accepted_two_rejected_def in_box_def)

section \<open>Facts about the two queries\<close>

lemma fast_nearest_points_rows:
  assumes "kdtree self = Some t" "query_points \<noteq> []" "1 \<le> k"
  shows "fast_nearest_points trav self query_points k =
           Inr (map (\<lambda>q. map snd (knn_row trav t q (nat k))) query_points)"
proof (cases "k = 1")
  case True
  have "[hd (map snd (knn_row trav t q (Suc 0)))] = map snd (knn_row trav t q (Suc 0))" for q
    using length_knn_row [of trav t q "Suc 0"]
    by (cases "knn_row trav t q (Suc 0)") simp_all
  then show ?thesis
    using assms True by (simp add: fast_nearest_points_def query_def squeeze_def comp_def)
next
  case False
  then show ?thesis
    using assms by (simp add: fast_nearest_points_def query_def)
qed

lemma ellipse_in_ball:
  assumes "in_linearized_circle a b c p"
  shows "in_ball p c (max a b)"
proof -
  let ?dx = "fst p - fst c" and ?dy = "snd p - snd c" and ?m = "max a b"
  from assms have a: "0 < a" and b: "0 < b"
    and le: "(?dx / a)\<^sup>2 + (?dy / b)\<^sup>2 \<le> 1"
    by (simp_all add: in_linearized_circle_def)
  have "a\<^sup>2 \<le> ?m\<^sup>2" "b\<^sup>2 \<le> ?m\<^sup>2"
    using a b by (simp_all add: power_mono)
  then have "a\<^sup>2 * (?dx / a)\<^sup>2 \<le> ?m\<^sup>2 * (?dx / a)\<^sup>2" "b\<^sup>2 * (?dy / b)\<^sup>2 \<le> ?m\<^sup>2 * (?dy / b)\<^sup>2"
    by (simp_all add: mult_right_mono)
  moreover have "a\<^sup>2 * (?dx / a)\<^sup>2 = ?dx\<^sup>2" "b\<^sup>2 * (?dy / b)\<^sup>2 = ?dy\<^sup>2"
    using a b by (simp_all add: power_divide)
  ultimately have "?dx\<^sup>2 + ?dy\<^sup>2 \<le> ?m\<^sup>2 * ((?dx / a)\<^sup>2 + (?dy / b)\<^sup>2)"
    by (simp add: distrib_left)
  also have "\<dots> \<le> ?m\<^sup>2 * 1"
    using le by (intro mult_left_mono) simp_all
  finally show ?thesis by (simp add: in_ball_def)
qed

text \<open>
  Where line 107 does not divide by zero, the query returns every stored point inside
  the circle of the linearized metric taken with the two radii the method computes:
  the circle with the larger radius contains it.
\<close>

lemma fast_spatial_query_covers:
  assumes "kdtree self = Some t" and "lon_radius radius_km (fst center) = Inr lon_r"
    and "i < length (tree_data t)"
    and "in_linearized_circle (lat_radius radius_km) lon_r center (tree_data t ! i)"
  shows "\<exists>res. fast_spatial_query self center radius_km = Inr res \<and> i \<in> set res"
  using assms ellipse_in_ball [OF assms(4)]
  by (simp add: fast_spatial_query_def set_query_ball_point)

section \<open>Facts about the assignment\<close>

lemma upt2: "[0..<2] = [0, Suc 0]"
  by (simp add: upt_rec numeral_2_eq_2)

lemma tie_coords: "graph_node_coords tie_nodes = [(-23.5, -46.25), (-23.5, -46.75)]"
  by (simp add: tie_nodes_def)

lemma update_fresh: "k \<notin> fst ` set al \<Longrightarrow> AList.update k v al = al @ [(k, v)]"
  by (induction al) auto

lemma store_batch_enumerate:
  assumes "\<forall>x \<in> set xs. f x < length ids" and "\<forall>k \<in> fst ` set acc. k < i + j0"
  shows "store_batch ids i acc (enumerate j0 (zip xs (zip (map f xs) (map g xs))))
           = Inr (acc @ map (\<lambda>(j, x). (i + j, \<lparr>crime_point = x, nearest_node_id = ids ! f x,
                                                distance = g x\<rparr>)) (enumerate j0 xs))"
  using assms
proof (induction xs arbitrary: j0 acc)
  case Nil
  show ?case by simp
next
  case (Cons x xs)
  let ?e = "\<lparr>crime_point = x, nearest_node_id = ids ! f x, distance = g x\<rparr>"
  have fresh: "i + j0 \<notin> fst ` set acc"
    using Cons.prems(2) by auto
  have keys: "\<forall>k \<in> fst ` set (acc @ [(i + j0, ?e)]). k < i + Suc j0"
    using Cons.prems(2) by auto
  have "store_batch ids i acc (enumerate j0 (zip (x # xs) (zip (map f (x # xs)) (map g (x # xs)))))
        = store_batch ids i (acc @ [(i + j0, ?e)])
            (enumerate (Suc j0) (zip xs (zip (map f xs) (map g xs))))"
    using Cons.prems(1) by (simp add: update_fresh [OF fresh])
  also have "\<dots> = Inr ((acc @ [(i + j0, ?e)])
        @ map (\<lambda>(j, x). (i + j, \<lparr>crime_point = x, nearest_node_id = ids ! f x, distance = g x\<rparr>))
            (enumerate (Suc j0) xs))"
    using Cons.prems(1) keys by (intro Cons.IH) auto
  finally show ?case by simp
qed

lemma enumerate_slice:
  assumes "i \<le> e" "e \<le> length cps"
  shows "map (\<lambda>(j, x). (i + j, R x)) (enumerate 0 (take (e - i) (drop i cps)))
           = map (\<lambda>g. (g, R (cps ! g))) [i..<e]"
proof (rule nth_equalityI)
  show "length (map (\<lambda>(j, x). (i + j, R x)) (enumerate 0 (take (e - i) (drop i cps))))
          = length (map (\<lambda>g. (g, R (cps ! g))) [i..<e])"
    using assms by simp
next
  fix m
  assume "m < length (map (\<lambda>(j, x). (i + j, R x)) (enumerate 0 (take (e - i) (drop i cps))))"
  then have m: "m < e - i" using assms by simp
  then have "m < length (take (e - i) (drop i cps))" using assms by simp
  then have "enumerate 0 (take (e - i) (drop i cps)) ! m = (m, cps ! (i + m))"
    using m assms by (simp add: nth_enumerate_eq)
  then show "map (\<lambda>(j, x). (i + j, R x)) (enumerate 0 (take (e - i) (drop i cps))) ! m
          = map (\<lambda>g. (g, R (cps ! g))) [i..<e] ! m"
    using m assms by simp
qed

lemma assign_batches_closed:
  assumes "0 < b" and "\<forall>x \<in> set cps. snd (hd (knn_row trav t x 1)) < length ids"
    and "\<forall>k \<in> fst ` set acc. k < i"
  shows "assign_batches trav t ids cps b i acc
           = Inr (acc @ map (\<lambda>g. (g, nearest_entry trav t ids (cps ! g))) [i..<length cps])"
  using assms
proof (induction trav t ids cps b i acc rule: assign_batches.induct)
  case (1 trav t ids cps b i acc)
  let ?N = "length cps"
  let ?R = "nearest_entry trav t ids"
  show ?case
  proof (cases "i < ?N")
    case False
    then show ?thesis by (subst assign_batches.simps) simp
  next
    case True
    let ?e = "min (i + b) ?N"
    let ?batch = "take (?e - i) (drop i cps)"
    have ne: "?batch \<noteq> []"
      using True \<open>0 < b\<close> by simp
    have sub: "set ?batch \<subseteq> set cps"
      by (meson set_drop_subset set_take_subset subset_trans)
    let ?acc' = "acc @ map (\<lambda>g. (g, ?R (cps ! g))) [i..<?e]"
    have st: "store_batch ids i acc
                (enumerate 0 (zip ?batch
                   (zip (squeeze (map (\<lambda>x. map snd (knn_row trav t x 1)) ?batch))
                        (squeeze (map (\<lambda>x. map fst (knn_row trav t x 1)) ?batch)))))
              = Inr ?acc'"
    proof -
      have sq: "squeeze (map (\<lambda>x. map snd (knn_row trav t x 1)) ?batch)
                  = map (\<lambda>x. snd (hd (knn_row trav t x 1))) ?batch"
        "squeeze (map (\<lambda>x. map fst (knn_row trav t x 1)) ?batch)
                  = map (\<lambda>x. fst (hd (knn_row trav t x 1))) ?batch"
        by (simp_all add: squeeze_def hd_knn_row)
      have "store_batch ids i acc
              (enumerate 0 (zip ?batch (zip (map (\<lambda>x. snd (hd (knn_row trav t x 1))) ?batch)
                                            (map (\<lambda>x. fst (hd (knn_row trav t x 1))) ?batch))))
            = Inr (acc @ map (\<lambda>(j, x). (i + j, \<lparr>crime_point = x,
                      nearest_node_id = ids ! snd (hd (knn_row trav t x 1)),
                      distance = fst (hd (knn_row trav t x 1))\<rparr>)) (enumerate 0 ?batch))"
        using "1.prems"(2,3) sub by (intro store_batch_enumerate) auto
      also have "map (\<lambda>(j, x). (i + j, \<lparr>crime_point = x,
                      nearest_node_id = ids ! snd (hd (knn_row trav t x 1)),
                      distance = fst (hd (knn_row trav t x 1))\<rparr>)) (enumerate 0 ?batch)
                 = map (\<lambda>(j, x). (i + j, ?R x)) (enumerate 0 ?batch)"
        by (simp add: nearest_entry_def)
      also have "\<dots> = map (\<lambda>g. (g, ?R (cps ! g))) [i..<?e]"
        using True by (intro enumerate_slice) simp_all
      finally show ?thesis by (simp only: sq)
    qed
    have keys: "\<forall>k \<in> fst ` set ?acc'. k < i + b"
      using "1.prems"(3) by (auto simp: image_Un)
    have rec: "assign_batches trav t ids cps b (i + b) ?acc'
                 = Inr (?acc' @ map (\<lambda>g. (g, ?R (cps ! g))) [i + b..<?N])"
      using True \<open>0 < b\<close> "1.prems"(2) keys
      by (intro "1.IH" [OF _ refl refl query_one [OF ne] refl st]) simp_all
    have split: "[i..<?e] @ [i + b..<?N] = [i..<?N]"
    proof (cases "i + b \<le> ?N")
      case True
      then obtain r where r: "?N = (i + b) + r"
        using le_Suc_ex by blast
      have "[i..<(i + b) + r] = [i..<i + b] @ [i + b..<(i + b) + r]"
        by (rule upt_add_eq_append) simp
      then show ?thesis using True r by (simp add: min_def)
    next
      case False
      then show ?thesis by (simp add: min_def)
    qed
    have "assign_batches trav t ids cps b i acc = assign_batches trav t ids cps b (i + b) ?acc'"
      by (rule trans [OF assign_batches.simps])
        (simp only: True \<open>0 < b\<close> simp_thms if_True Let_def query_one [OF ne] sum.case prod.case st)
    also note rec
    finally show ?thesis
      using split by (simp flip: map_append)
  qed
qed

lemma length_graph_nodes: "length (graph_node_ids nodes) = length (graph_node_coords nodes)"
  by (induction nodes rule: graph_node_ids.induct) simp_all

lemma optimized_assignment_closed:
  assumes "bulk_insert_points init csv = (True, analyzer)"
    and "graph_node_coords nodes \<noteq> []" and "0 < batch_size"
    and "\<forall>x \<in> set (points analyzer). wf_trav trav (graph_node_coords nodes) x"
  shows "optimized_assignment trav batch_size csv (Some nodes)
           = Inr (Some (map (\<lambda>g. (g, nearest_entry trav (CKDTree (graph_node_coords nodes))
                                        (graph_node_ids nodes) (points analyzer ! g)))
                          [0..<length (points analyzer)]))"
proof -
  let ?t = "CKDTree (graph_node_coords nodes)"
  have idx: "\<forall>x \<in> set (points analyzer). snd (hd (knn_row trav ?t x 1)) < length (graph_node_ids nodes)"
    using assms(2,4) nearest_idx_in_range [of trav "graph_node_coords nodes"]
    by (auto simp: length_graph_nodes simp del: One_nat_def)
  have "assign_batches trav ?t (graph_node_ids nodes) (points analyzer) (nat batch_size) 0 []
          = Inr ([] @ map (\<lambda>g. (g, nearest_entry trav ?t (graph_node_ids nodes) (points analyzer ! g)))
                        [0..<length (points analyzer)])"
    using assms(3) idx by (intro assign_batches_closed) simp_all
  then show ?thesis
    using assms(1,2,3)
    by (simp add: optimized_assignment_def cKDTree_def assign_in_batches_def)
qed









text \<open>
  The clause on the unique nearest node cannot be dropped for every order that the
  library's contract allows: if the search meets the second of two equidistant nodes
  first, the batched loop stores node 20 where lines 85 to 105 store node 10.
\<close>

lemma tied_node_depends_on_tree_order:
  "wf_trav reverse_order (graph_node_coords tie_nodes) (-23.5, -46.5)
   \<and> points (snd (bulk_insert_points init one_point)) = [(-23.5, -46.5)]
   \<and> optimized_assignment reverse_order 10000 one_point (Some tie_nodes)
       = Inr (Some [(0, \<lparr>crime_point = (-23.5, -46.5), nearest_node_id = 20, distance = Finite (1 / 4)\<rparr>)])
   \<and> full_matrix_assignment tie_nodes [(-23.5, -46.5)]
       = Inr [(0, \<lparr>crime_point = (-23.5, -46.5), nearest_node_id = 10, distance = Finite (1 / 4)\<rparr>)]"
proof -
  have a: "optimized_assignment reverse_order 10000 one_point (Some tie_nodes)
       = Inr (Some [(0, \<lparr>crime_point = (-23.5, -46.5), nearest_node_id = 20, distance = Finite (1 / 4)\<rparr>)])"
    by (simp add: optimized_assignment_def loaded_one tie_nodes_def cKDTree_def assign_in_batches_def
        query_def knn_row_def reverse_order_def squeeze_def euclid_def upt2 enumerate_eq_zip)
  have b: "full_matrix_assignment tie_nodes [(-23.5, -46.5)]
       = Inr [(0, \<lparr>crime_point = (-23.5, -46.5), nearest_node_id = 10, distance = Finite (1 / 4)\<rparr>)]"
    by (simp add: full_matrix_assignment_def tie_nodes_def cdist_def argmin_def euclid_def enumerate_eq_zip)
  show ?thesis
    using a b wf_reverse_order by (simp add: loaded_one)
qed

section \<open>The range query\<close>

text \<open>
  C1. The range query is to return every indexed point inside the circle of the given
  radius around the centre. At the centre \<open>(0, -46.5)\<close> with the radius 3000 km the
  stored point \<open>(-23.5, -46.5)\<close> is inside the circle, by the linearized metric of the
  specification and by the plain distance in degrees (23.5 degrees against a radius of
  3000 / 111.32 = 26.9 degrees), and the query returns the empty list: line 107
  divides by the latitude of the centre, and the \<^verbatim>\<open>except\<close> of line 114 turns the
  \<open>ZeroDivisionError\<close> into \<open>[]\<close>.
\<close>

theorem range_query_misses_point_at_equator:
  "kdtree (snd (bulk_insert_points init one_point)) = Some (CKDTree [(-23.5, -46.5)])
   \<and> in_linearized_circle (lat_radius 3000) (spec_lon_degree_radius 3000 0) (0, -46.5) (-23.5, -46.5)
   \<and> in_ball (-23.5, -46.5) (0, -46.5) (lat_radius 3000)
   \<and> fast_spatial_query (snd (bulk_insert_points init one_point)) (0, -46.5) 3000 = Inr []"
  by (simp add: loaded_one in_linearized_circle_def lat_radius_def spec_lon_degree_radius_def
      in_ball_def fast_spatial_query_def lon_radius_def power2_eq_square)

section \<open>The degree conversion\<close>

text \<open>
  C2. The longitude radius is to be the radius in kilometres divided by
  \<open>111.32 * cos \<phi>\<close>, \<open>\<phi>\<close> the latitude of the centre in radians. At the latitude 60 that
  is \<open>5 / (111.32 * cos (pi / 3)) = 5 / 55.66\<close> for 5 km; line 107 divides by the latitude
  in radians instead of by its cosine and yields \<open>5 / (111.32 * pi / 3)\<close>. At the
  latitude 0 the specification's value is \<open>5 / 111.32\<close>, and line 107 divides by zero.
\<close>

theorem lon_radius_is_not_cosine:
  "lon_radius 5 60 = Inr (5 / (111.32 * 60 * pi / 180))
   \<and> spec_lon_degree_radius 5 60 = 5 / 55.66
   \<and> lon_radius 5 60 \<noteq> Inr (spec_lon_degree_radius 5 60)
   \<and> lon_radius 5 0 = Inl ZeroDivisionError
   \<and> spec_lon_degree_radius 5 0 = 5 / 111.32"
proof -
  have s60: "spec_lon_degree_radius 5 60 = 5 / 55.66"
    by (simp add: spec_lon_degree_radius_def cos_60)
  have l60: "lon_radius 5 60 = Inr (5 / (111.32 * 60 * pi / 180))"
    by (simp add: lon_radius_def)
  have "pi \<noteq> 3 / 2"
    using pi_ge_two by simp
  then have ne: "lon_radius 5 60 \<noteq> Inr (spec_lon_degree_radius 5 60)"
    by (simp add: l60 s60 field_simps)
  have l0: "lon_radius 5 0 = Inl ZeroDivisionError"
    by (simp add: lon_radius_def)
  have s0: "spec_lon_degree_radius 5 0 = 5 / 111.32"
    by (simp add: spec_lon_degree_radius_def)
  from l60 s60 ne l0 s0 show ?thesis by blast
qed

section \<open>The nearest-neighbour query\<close>

text \<open>
  C3, as the code has it. On a built index of \<open>n\<close> points, for a non-empty list of query
  points and \<open>k \<ge> 1\<close>, \<^verbatim>\<open>fast_nearest_points\<close> returns one row of identities per query
  point (no distances). A row has exactly \<open>k\<close> entries, not \<open>min k n\<close>: the first
  \<open>min k n\<close> are distinct identities of stored points, in ascending order of their
  distance to the query point, and no stored point left out is nearer than one of them;
  the remaining \<open>k - n\<close> entries are the number \<open>n\<close>, which is the identity of no point.
  The order of equidistant points is the library's.
\<close>

theorem fast_nearest_points_shape:
  assumes "kdtree self = Some t" and "query_points \<noteq> []" and "1 \<le> k"
    and "\<forall>q \<in> set query_points. wf_trav trav (tree_data t) q"
  shows "\<exists>rows. fast_nearest_points trav self query_points k = Inr rows
           \<and> length rows = length query_points
           \<and> (\<forall>j < length query_points.
                 let row = rows ! j; q = query_points ! j; pts = tree_data t;
                     n = length pts; m = min (nat k) n
                 in length row = nat k
                    \<and> distinct (take m row) \<and> set (take m row) \<subseteq> {0..<n}
                    \<and> drop m row = replicate (nat k - n) n
                    \<and> sorted (map (\<lambda>i. euclid (pts ! i) q) (take m row))
                    \<and> (\<forall>i < n. i \<notin> set (take m row) \<longrightarrow>
                          (\<forall>h \<in> set (take m row). euclid (pts ! h) q \<le> euclid (pts ! i) q)))"
proof -
  let ?rows = "map (\<lambda>q. map snd (knn_row trav t q (nat k))) query_points"
  have r: "fast_nearest_points trav self query_points k = Inr ?rows"
    using assms(1-3) by (rule fast_nearest_points_rows)
  have "length (?rows ! j) = nat k
        \<and> distinct (take (min (nat k) (length (tree_data t))) (?rows ! j))
        \<and> set (take (min (nat k) (length (tree_data t))) (?rows ! j)) \<subseteq> {0..<length (tree_data t)}
        \<and> drop (min (nat k) (length (tree_data t))) (?rows ! j)
            = replicate (nat k - length (tree_data t)) (length (tree_data t))
        \<and> sorted (map (\<lambda>i. euclid (tree_data t ! i) (query_points ! j))
                    (take (min (nat k) (length (tree_data t))) (?rows ! j)))
        \<and> (\<forall>i < length (tree_data t).
              i \<notin> set (take (min (nat k) (length (tree_data t))) (?rows ! j)) \<longrightarrow>
              (\<forall>h \<in> set (take (min (nat k) (length (tree_data t))) (?rows ! j)).
                  euclid (tree_data t ! h) (query_points ! j) \<le> euclid (tree_data t ! i) (query_points ! j)))"
    if j: "j < length query_points" for j
  proof -
    let ?q = "query_points ! j"
    let ?R = "ranked trav (tree_data t) ?q"
    let ?f = "\<lambda>i. euclid (tree_data t ! i) ?q"
    have wf: "wf_trav trav (tree_data t) ?q"
      using assms(4) j by simp
    have rowj: "?rows ! j = map snd (knn_row trav t ?q (nat k))"
      using j by simp
    note w = ranked_wf [OF wf]
    have tk: "take (min (nat k) (length (tree_data t))) (?rows ! j) = take (nat k) ?R"
      and dr: "drop (min (nat k) (length (tree_data t))) (?rows ! j)
                = replicate (nat k - length (tree_data t)) (length (tree_data t))"
      unfolding rowj by (rule knn_row_split [OF wf])+
    have 1: "length (?rows ! j) = nat k"
      unfolding rowj by (simp add: length_knn_row)
    have 2: "distinct (take (nat k) ?R)"
      using w(2) by (rule distinct_take)
    have 3: "set (take (nat k) ?R) \<subseteq> {0..<length (tree_data t)}"
      using w(3) set_take_subset [of "nat k" ?R] by simp
    have 4: "sorted (map ?f (take (nat k) ?R))"
      using w(4) by (simp add: take_map [symmetric] sorted_wrt_take)
    have 5: "?f h \<le> ?f i" if "i < length (tree_data t)" "i \<notin> set (take (nat k) ?R)"
      "h \<in> set (take (nat k) ?R)" for i h
    proof (rule sorted_take_le_rest [OF w(4) that(3) _ that(2)])
      show "i \<in> set ?R" using w(3) that(1) by simp
    qed
    from 1 2 3 4 5 dr show ?thesis
      unfolding tk by blast
  qed
  then show ?thesis
    using r by (simp add: Let_def)
qed

text \<open>The theorem at two stored points and \<open>k = 3\<close>.\<close>

theorem fast_nearest_points_shape_witness:
  "kdtree (snd (bulk_insert_points init two_points)) = Some (CKDTree [(-23.5, -46.5), (-23.6, -46.5)])
   \<and> [(-23.5, -46.5) :: point] \<noteq> [] \<and> (1 :: int) \<le> 3
   \<and> wf_trav index_order [(-23.5, -46.5), (-23.6, -46.5)] (-23.5, -46.5)
   \<and> (\<exists>rows. fast_nearest_points index_order (snd (bulk_insert_points init two_points))
                [(-23.5, -46.5)] 3 = Inr rows
         \<and> length rows = 1 \<and> length (rows ! 0) = 3 \<and> drop 2 (rows ! 0) = [2])"
proof -
  have h1: "kdtree (snd (bulk_insert_points init two_points))
              = Some (CKDTree [(-23.5, -46.5), (-23.6, -46.5)])"
    by (simp add: loaded_two)
  have h2: "[(-23.5, -46.5) :: point] \<noteq> []" by simp
  have h3: "(1 :: int) \<le> 3" by simp
  have h4: "wf_trav index_order [(-23.5, -46.5), (-23.6, -46.5)] (-23.5, -46.5)"
    by (rule wf_index_order)
  have h4': "\<forall>q \<in> set [(-23.5, -46.5) :: point].
               wf_trav index_order (tree_data (CKDTree [(-23.5, -46.5), (-23.6, -46.5)])) q"
    using h4 by simp
  from fast_nearest_points_shape [OF h1 h2 h3 h4']
  have "\<exists>rows. fast_nearest_points index_order (snd (bulk_insert_points init two_points))
                [(-23.5, -46.5)] 3 = Inr rows
         \<and> length rows = 1 \<and> length (rows ! 0) = 3 \<and> drop 2 (rows ! 0) = [2]"
    by (auto simp: Let_def numeral_3_eq_3 numeral_2_eq_2)
  with h1 h2 h3 h4 show ?thesis by blast
qed

text \<open>
  Against C3 as stated: with two stored points and \<open>k = 3\<close> the row has three entries,
  not \<open>min 3 2 = 2\<close>, and its last entry 2 is out of range.
\<close>

theorem fast_nearest_points_pads_with_sentinel:
  "fast_nearest_points index_order (snd (bulk_insert_points init two_points)) [(-23.5, -46.5)] 3
     = Inr [[0, 1, 2]]
   \<and> length (points (snd (bulk_insert_points init two_points))) = 2"
  by (simp add: loaded_two fast_nearest_points_def query_def knn_row_def index_order_def
      euclid_def upt2 numeral_3_eq_3)

text \<open>
  C7, as the code has it. For \<open>k \<le> 0\<close> \<^verbatim>\<open>fast_nearest_points\<close> returns the empty list,
  whatever the index and the query points: without an index by line 130, with one
  because the library's \<open>ValueError\<close> is caught in line 141.
\<close>

theorem nonpositive_k_returns_empty:
  "k \<le> 0 \<Longrightarrow> fast_nearest_points trav self query_points k = Inr []"
proof (cases "kdtree self")
  case None
  then show ?thesis by (simp add: fast_nearest_points_def)
next
  case (Some t)
  assume "k \<le> 0"
  then have "query trav t query_points k = Inl ValueError"
    by (simp add: query_def)
  with Some show ?thesis by (simp add: fast_nearest_points_def)
qed

theorem nonpositive_k_returns_empty_witness:
  "(-1 :: int) \<le> 0
   \<and> fast_nearest_points index_order (snd (bulk_insert_points init two_points)) [(-23.5, -46.5)] (-1)
       = Inr []"
  using nonpositive_k_returns_empty [of "-1" index_order "snd (bulk_insert_points init two_points)"
      "[(-23.5, -46.5)]"]
  by simp

text \<open>
  Against C7 as stated: on a built index, \<open>k = 0\<close> yields the empty list and not the
  failure \<open>InvalidArgument\<close>.
\<close>

theorem zero_k_is_not_InvalidArgument:
  "fast_nearest_points index_order (snd (bulk_insert_points init two_points)) [(-23.5, -46.5)] 0
     = Inr []
   \<and> fast_nearest_points index_order (snd (bulk_insert_points init two_points)) [(-23.5, -46.5)] 0
     \<noteq> Inl InvalidArgument"
  by (simp add: loaded_two fast_nearest_points_def query_def)

section \<open>The bulk load\<close>

text \<open>
  C8, as the code has it. \<^verbatim>\<open>bulk_insert_points\<close> returns a flag and nothing else. The
  flag is \<open>True\<close> exactly when no row with both cells present holds an unparsable
  coordinate and at least one row lies in the box; the stored points are then the rows
  in the box, in the order of the table, and the tree is built over them. Rows with a
  missing, an infinite or an out-of-box coordinate are dropped without a count. When
  the flag is \<open>False\<close> the tree is the one the object had before.
\<close>

theorem bulk_insert_points_returns_flag_only:
  "bulk_insert_points self (Table df) = (ok, self') \<Longrightarrow>
   (ok \<longleftrightarrow> \<not> (\<exists>r \<in> set (dropna df). fst r = Unparsable \<or> snd r = Unparsable) \<and> accepted df \<noteq> [])
   \<and> (if ok then points self' = accepted df \<and> kdtree self' = Some (CKDTree (accepted df))
       else kdtree self' = kdtree self)"
proof -
  assume r: "bulk_insert_points self (Table df) = (ok, self')"
  consider (abort) "\<exists>r \<in> set (dropna df). fst r = Unparsable \<or> snd r = Unparsable"
    | (none) "\<not> (\<exists>r \<in> set (dropna df). fst r = Unparsable \<or> snd r = Unparsable)"
        "accepted df = []"
    | (some) "\<not> (\<exists>r \<in> set (dropna df). fst r = Unparsable \<or> snd r = Unparsable)"
        "accepted df \<noteq> []"
    by blast
  then show ?thesis
  proof cases
    case abort
    with r have "ok = False" "self' = self"
      by (simp_all add: bulk_insert_points_Table)
    with abort show ?thesis by simp
  next
    case none
    with r have "ok = False" "self' = self\<lparr>points := [], points_array := Some []\<rparr>"
      by (simp_all add: bulk_insert_points_Table)
    with none show ?thesis by simp
  next
    case some
    with r have "ok = True"
      "self' = self\<lparr>points := accepted df, points_array := Some (accepted df),
                       kdtree := Some (CKDTree (accepted df))\<rparr>"
      by (simp_all add: bulk_insert_points_Table)
    with some show ?thesis by simp
  qed
qed

theorem bulk_insert_points_returns_flag_only_witness:
  "bulk_insert_points init (Table one_accepted_two_rejected) =
     (True, \<lparr>points = [(-23.5, -46.5)], points_array = Some [(-23.5, -46.5)],
             kdtree = Some (CKDTree [(-23.5, -46.5)])\<rparr>)
   \<and> accepted one_accepted_two_rejected = [(-23.5, -46.5)]
   \<and> length one_accepted_two_rejected = 3"
proof -
  note h = loaded_example
  from bulk_insert_points_returns_flag_only [OF h]
  have "accepted one_accepted_two_rejected = [(-23.5, -46.5)]" by simp
  with h show ?thesis by (simp add: one_accepted_two_rejected_def)
qed

text \<open>
  Against C8 as stated: a table with two rejected rows and a table with none leave the
  same flag and the same object, so the number of rejected rows is not reported.
\<close>

theorem rejected_count_is_not_reported:
  "bulk_insert_points init (Table one_accepted_two_rejected) = bulk_insert_points init one_point
   \<and> length one_accepted_two_rejected - length (accepted one_accepted_two_rejected) = 2
   \<and> length [(Num (-23.5), Num (-46.5)) :: row] - length (accepted [(Num (-23.5), Num (-46.5))]) = 0"
  by (simp add: loaded_example loaded_one accepted_example)
     (simp add: accepted_def in_box_def one_accepted_two_rejected_def)




text \<open>
  C10, as the code has it. After a bulk load that returned \<open>True\<close> the stored points are
  the rows of the table that lie in the box \<open>-24 \<le> lat \<le> -23\<close>, \<open>-47 \<le> lon \<le> -46\<close>, the
  tree is built over exactly these points, every identity that a range query returns
  is the identity of a stored point in the box, and every identity that a
  nearest-neighbour query returns is either that or the number of stored points, which
  is the identity of no point.
\<close>

theorem successful_load_invariant:
  assumes "bulk_insert_points self csv = (True, self')"
  shows "(\<exists>df. csv = Table df \<and> points self' = accepted df)
         \<and> (\<forall>p \<in> set (points self'). in_box p)
         \<and> kdtree self' = Some (CKDTree (points self'))
         \<and> (\<forall>center radius_km. \<exists>res. fast_spatial_query self' center radius_km = Inr res
               \<and> (\<forall>i \<in> set res. i < length (points self') \<and> in_box (points self' ! i)))
         \<and> (\<forall>trav query_points k. (\<forall>q \<in> set query_points. wf_trav trav (points self') q) \<longrightarrow>
               (\<exists>rows. fast_nearest_points trav self' query_points k = Inr rows
                  \<and> (\<forall>row \<in> set rows. \<forall>i \<in> set row.
                        i = length (points self') \<or>
                        i < length (points self') \<and> in_box (points self' ! i))))"
proof -
  from assms obtain df where df: "csv = Table df" "points self' = accepted df"
    and kd: "kdtree self' = Some (CKDTree (accepted df))"
    by (rule bulk_insert_points_True)
  have box: "\<forall>p \<in> set (points self'). in_box p"
    by (auto simp: df(2) set_accepted)
  have kd': "kdtree self' = Some (CKDTree (points self'))"
    by (simp add: kd df(2))
  have nthbox: "in_box (points self' ! i)" if "i < length (points self')" for i
    using box that by simp
  have rq: "\<exists>res. fast_spatial_query self' center radius_km = Inr res
               \<and> (\<forall>i \<in> set res. i < length (points self') \<and> in_box (points self' ! i))"
    for center radius_km
  proof (cases "lon_radius radius_km (fst center)")
    case (Inl e)
    then show ?thesis by (simp add: fast_spatial_query_def kd')
  next
    case (Inr lon_r)
    then show ?thesis
      using nthbox by (simp add: fast_spatial_query_def kd' set_query_ball_point)
  qed
  have nn: "\<exists>rows. fast_nearest_points trav self' query_points k = Inr rows
                  \<and> (\<forall>row \<in> set rows. \<forall>i \<in> set row.
                        i = length (points self') \<or>
                        i < length (points self') \<and> in_box (points self' ! i))"
    if wf: "\<forall>q \<in> set query_points. wf_trav trav (points self') q" for trav query_points k
  proof (cases "query_points \<noteq> [] \<and> 1 \<le> k")
    case False
    then have "fast_nearest_points trav self' query_points k = Inr []"
      by (auto simp: fast_nearest_points_def query_def kd')
    then show ?thesis by simp
  next
    case True
    then have r: "fast_nearest_points trav self' query_points k
             = Inr (map (\<lambda>q. map snd (knn_row trav (CKDTree (points self')) q (nat k))) query_points)"
      using kd' by (intro fast_nearest_points_rows) simp_all
    have "i = length (points self') \<or> i < length (points self') \<and> in_box (points self' ! i)"
      if "q \<in> set query_points" "i \<in> set (map snd (knn_row trav (CKDTree (points self')) q (nat k)))"
      for q i
    proof -
      have "wf_trav trav (tree_data (CKDTree (points self'))) q"
        using wf that(1) by simp
      from knn_row_identities [OF this that(2)] have "i \<le> length (points self')" by simp
      then show ?thesis using nthbox [of i] by auto
    qed
    then show ?thesis unfolding r by auto
  qed
  show ?thesis
    using df box kd' rq nn by blast
qed

theorem successful_load_invariant_witness:
  "bulk_insert_points init (Table one_accepted_two_rejected) =
     (True, \<lparr>points = [(-23.5, -46.5)], points_array = Some [(-23.5, -46.5)],
             kdtree = Some (CKDTree [(-23.5, -46.5)])\<rparr>)
   \<and> in_box (-23.5, -46.5)
   \<and> kdtree (snd (bulk_insert_points init (Table one_accepted_two_rejected)))
       = Some (CKDTree [(-23.5, -46.5)])"
proof -
  note h = loaded_example
  from successful_load_invariant [OF h]
  have "in_box (-23.5, -46.5)" by simp
  with h show ?thesis by simp
qed

text \<open>
  Against C10 as stated: with one stored point, the query for two neighbours returns
  the identities 0 and 1, and 1 refers to no stored point.
\<close>

theorem nearest_query_returns_identity_of_no_point:
  "fast_nearest_points index_order (snd (bulk_insert_points init one_point)) [(-23.5, -46.5)] 2
     = Inr [[0, 1]]
   \<and> length (points (snd (bulk_insert_points init one_point))) = 1"
  by (simp add: loaded_one fast_nearest_points_def query_def knn_row_def index_order_def
      euclid_def numeral_2_eq_2)

section \<open>The batch assignment\<close>




text \<open>
  C5. After a successful load of the crime file and with at least one road node that
  has coordinates, for every positive batch size the dictionary of assignments has
  exactly the keys \<open>0, 1, \<dots>, N - 1\<close> in this order, \<open>N\<close> the number of crime points,
  and the entry under the key \<open>g\<close> is the one of the \<open>g\<close>-th crime point.
\<close>

theorem assignments_keyed_in_subject_order:
  assumes "bulk_insert_points init csv = (True, analyzer)"
    and "graph_node_coords nodes \<noteq> []" and "0 < batch_size"
    and "\<forall>x \<in> set (points analyzer). wf_trav trav (graph_node_coords nodes) x"
  shows "\<exists>A. optimized_assignment trav batch_size csv (Some nodes) = Inr (Some A)
           \<and> map fst A = [0..<length (points analyzer)]
           \<and> (\<forall>g < length (points analyzer). crime_point (snd (A ! g)) = points analyzer ! g)"
proof -
  let ?entry = "\<lambda>g. nearest_entry trav (CKDTree (graph_node_coords nodes)) (graph_node_ids nodes)
                      (points analyzer ! g)"
  let ?A = "map (\<lambda>g. (g, ?entry g)) [0..<length (points analyzer)]"
  have "optimized_assignment trav batch_size csv (Some nodes) = Inr (Some ?A)"
    using assms by (rule optimized_assignment_closed)
  moreover have "map fst ?A = [0..<length (points analyzer)]"
    by (simp add: comp_def)
  moreover have "\<forall>g < length (points analyzer). crime_point (snd (?A ! g)) = points analyzer ! g"
    by (simp add: nearest_entry_def)
  ultimately show ?thesis by blast
qed

theorem assignments_keyed_in_subject_order_witness:
  "bulk_insert_points init two_points =
     (True, \<lparr>points = [(-23.5, -46.5), (-23.6, -46.5)],
             points_array = Some [(-23.5, -46.5), (-23.6, -46.5)],
             kdtree = Some (CKDTree [(-23.5, -46.5), (-23.6, -46.5)])\<rparr>)
   \<and> graph_node_coords tie_nodes \<noteq> [] \<and> (0 :: int) < 1
   \<and> wf_trav index_order (graph_node_coords tie_nodes) (-23.5, -46.5)
   \<and> wf_trav index_order (graph_node_coords tie_nodes) (-23.6, -46.5)
   \<and> (\<exists>A. optimized_assignment index_order 1 two_points (Some tie_nodes) = Inr (Some A)
         \<and> map fst A = [0, 1])"
proof -
  note h1 = loaded_two
  have h2: "graph_node_coords tie_nodes \<noteq> []" by (simp add: tie_coords)
  have h3: "(0 :: int) < 1" by simp
  have h4: "\<forall>x \<in> set (points \<lparr>points = [(-23.5, -46.5), (-23.6, -46.5)],
             points_array = Some [(-23.5, -46.5), (-23.6, -46.5)],
             kdtree = Some (CKDTree [(-23.5, -46.5), (-23.6, -46.5)])\<rparr>).
             wf_trav index_order (graph_node_coords tie_nodes) x"
    by (simp add: wf_index_order)
  from assignments_keyed_in_subject_order [OF h1 h2 h3 h4]
  obtain A where a: "optimized_assignment index_order 1 two_points (Some tie_nodes) = Inr (Some A)"
    and k: "map fst A = [0..<length (points \<lparr>points = [(-23.5, -46.5), (-23.6, -46.5)],
             points_array = Some [(-23.5, -46.5), (-23.6, -46.5)],
             kdtree = Some (CKDTree [(-23.5, -46.5), (-23.6, -46.5)])\<rparr>)]"
    by blast
  from k have k': "map fst A = [0, 1]" by (simp add: upt2)
  have ex: "\<exists>A. optimized_assignment index_order 1 two_points (Some tie_nodes) = Inr (Some A)
         \<and> map fst A = [0, 1]"
    using a k' by (intro exI [of _ A] conjI)
  show ?thesis
    by (intro conjI) (rule h1 h2 h3 wf_index_order ex)+
qed

text \<open>
  C6, as the code has it. When no road node has coordinates, the tree constructor of
  line 69 raises \<open>ValueError\<close> before any distance is computed, and since line 69 is
  outside any \<^verbatim>\<open>try\<close> the exception leaves the function; this is so whenever the crime
  file loaded, and otherwise the function has already returned \<open>None\<close>.
\<close>

theorem empty_reference_set_raises_ValueError:
  "graph_node_coords nodes = [] \<Longrightarrow>
   create_optimized_voronoi_assignment trav csv (Some nodes)
     = (if fst (bulk_insert_points init csv) then Inl ValueError else Inr None)"
  by (cases "bulk_insert_points init csv")
     (simp add: create_optimized_voronoi_assignment_def optimized_assignment_def cKDTree_def)

theorem empty_reference_set_raises_ValueError_witness:
  "graph_node_coords no_coordinates = []
   \<and> create_optimized_voronoi_assignment index_order one_point (Some no_coordinates) = Inl ValueError"
proof -
  have h: "graph_node_coords no_coordinates = []"
    by (simp add: no_coordinates_def)
  from empty_reference_set_raises_ValueError [OF h, of index_order one_point]
  have "create_optimized_voronoi_assignment index_order one_point (Some no_coordinates) = Inl ValueError"
    by (simp add: loaded_one)
  with h show ?thesis by simp
qed

text \<open>
  Against C6 as stated: with an empty list of road nodes the failure is \<open>ValueError\<close>,
  not \<open>EmptyReferenceSet\<close>.
\<close>

theorem empty_reference_set_is_not_typed:
  "create_optimized_voronoi_assignment index_order one_point (Some []) = Inl ValueError
   \<and> create_optimized_voronoi_assignment index_order one_point (Some []) \<noteq> Inl EmptyReferenceSet"
  by (simp add: create_optimized_voronoi_assignment_def optimized_assignment_def loaded_one cKDTree_def)

end
